theory Spec2Isabelle
  imports Complex_Main
begin

section \<open>Shared values: JavaScript results and promises\<close>

text \<open>
  A JavaScript value as far as the engine's own code inspects it: \<open>undefined\<close>,
  an opaque user value, or an array (the result of \<open>Promise.all\<close>).
\<close>

datatype 'v jsval = Undefined | Val 'v | Array "'v jsval list"

text \<open>
  A promise is represented by its eventual outcome. \<open>Pending\<close> stands for a
  promise that has not settled.
\<close>

datatype ('a, 'e) promise = Pending | Fulfilled 'a | Rejected 'e

text \<open>\<open>p.then(f)\<close> for a handler \<open>f\<close> that returns normally.\<close>

fun then_promise :: "('a \<Rightarrow> 'b) \<Rightarrow> ('a, 'e) promise \<Rightarrow> ('b, 'e) promise" where
  "then_promise f Pending = Pending"
| "then_promise f (Fulfilled v) = Fulfilled (f v)"
| "then_promise f (Rejected e) = Rejected e"

text \<open>\<open>p.catch(f)\<close> for a handler \<open>f\<close> that returns normally.\<close>

fun catch_promise :: "('e \<Rightarrow> 'a) \<Rightarrow> ('a, 'e) promise \<Rightarrow> ('a, 'e) promise" where
  "catch_promise f Pending = Pending"
| "catch_promise f (Fulfilled v) = Fulfilled v"
| "catch_promise f (Rejected e) = Fulfilled (f e)"

text \<open>
  Modelled from the spec: \<open>noop\<close> of \<open>utils\<close> is not among the sources. The
  spec says that \<open>prefetch*\<close> "swallow errors (returning void)": \<open>noop\<close> takes
  any argument and returns \<open>undefined\<close>.
\<close>

definition noop :: "'x \<Rightarrow> 'v jsval" where
  "noop x = Undefined"

section \<open>NotifyManager (notifyManager.ts)\<close>

text \<open>
  Callbacks are opaque; the model records which closure is handed to
  \<open>scheduleFn\<close>. \<open>NotifyTask cb\<close> is \<open>() => { notifyFn(cb) }\<close> and
  \<open>FlushTask q\<close> is
  \<open>() => { batchNotifyFn(() => { q.forEach((cb) => { notifyFn(cb) }) }) }\<close>.
\<close>

datatype 'cb task = NotifyTask 'cb | FlushTask "'cb list"

text \<open>
  What a task does when the scheduler runs it, as the tree of calls to the
  two pluggable functions: \<open>BatchNotifyFn cs\<close> is one call of
  \<open>batchNotifyFn\<close> with a closure that performs the calls \<open>cs\<close> in order.
\<close>

datatype 'cb call = NotifyFn 'cb | BatchNotifyFn "'cb call list"

fun run_task :: "'cb task \<Rightarrow> 'cb call list" where
  "run_task (NotifyTask cb) = [NotifyFn cb]"
| "run_task (FlushTask q) = [BatchNotifyFn (map NotifyFn q)]"

text \<open>
  The closure variables of \<open>createNotifyManager\<close>, and the calls made to
  \<open>scheduleFn\<close> so far (oldest first).
\<close>

record 'cb notify_manager =
  queue :: "'cb list"
  transactions :: int
  scheduled :: "'cb task list"

definition createNotifyManager :: "'cb notify_manager" where
  "createNotifyManager = \<lparr>queue = [], transactions = 0, scheduled = []\<rparr>"

definition schedule ::
  "'cb \<Rightarrow> ('cb, 'z) notify_manager_scheme \<Rightarrow> ('cb, 'z) notify_manager_scheme" where
  "schedule callback st =
     (if transactions st \<noteq> 0
      then st\<lparr>queue := queue st @ [callback]\<rparr>
      else st\<lparr>scheduled := scheduled st @ [NotifyTask callback]\<rparr>)"

definition flush ::
  "('cb, 'z) notify_manager_scheme \<Rightarrow> ('cb, 'z) notify_manager_scheme" where
  "flush st =
     (let originalQueue = queue st;
          st1 = st\<lparr>queue := []\<rparr>
      in if originalQueue \<noteq> []
         then st1\<lparr>scheduled := scheduled st1 @ [FlushTask originalQueue]\<rparr>
         else st1)"

text \<open>
  \<open>batch(callback)\<close>. The callback is arbitrary code: it transforms the whole
  state and either returns a result (\<open>Inr\<close>) or throws (\<open>Inl\<close>). The
  \<open>finally\<close> block runs in both cases, after which the result is returned or
  the exception propagates.
\<close>

definition batch ::
  "(('cb, 'z) notify_manager_scheme \<Rightarrow> ('x + 'r) \<times> ('cb, 'z) notify_manager_scheme)
   \<Rightarrow> ('cb, 'z) notify_manager_scheme
   \<Rightarrow> ('x + 'r) \<times> ('cb, 'z) notify_manager_scheme" where
  "batch callback st =
     (let st1 = st\<lparr>transactions := transactions st + 1\<rparr>;
          (result, st2) = callback st1;
          st3 = st2\<lparr>transactions := transactions st2 - 1\<rparr>;
          st4 = (if transactions st3 = 0 then flush st3 else st3)
      in (result, st4))"

text \<open>\<open>batchCalls(callback)\<close>: each invocation of the wrapper schedules the call.\<close>

definition batchCalls ::
  "('args \<Rightarrow> 'cb) \<Rightarrow> 'args \<Rightarrow> ('cb, 'z) notify_manager_scheme \<Rightarrow> ('cb, 'z) notify_manager_scheme" where
  "batchCalls callback args st = schedule (callback args) st"

text \<open>
  A batch body that does nothing but call \<open>schedule\<close> for each callback of
  a list in turn, and returns normally.
\<close>

definition schedule_all ::
  "'cb list \<Rightarrow> ('cb, 'z) notify_manager_scheme \<Rightarrow> (unit + unit) \<times> ('cb, 'z) notify_manager_scheme" where
  "schedule_all cbs st = (Inr (), foldl (\<lambda>s cb. schedule cb s) st cbs)"

text \<open>Example inputs: a fresh manager and a callback that schedules callback 7 and then throws.\<close>

definition throwing_callback :: "nat notify_manager \<Rightarrow> (string + unit) \<times> nat notify_manager" where
  "throwing_callback s = (Inl ''boom'', schedule 7 s)"

definition idle_manager :: "nat notify_manager" where
  "idle_manager = createNotifyManager"

section \<open>FocusManager and OnlineManager (subscribable.ts, retryer.ts)\<close>

text \<open>
  Listeners are opaque functions with identity. \<open>Subscribable.listeners\<close> is a
  \<open>Set\<close>, iterated in insertion order: a list. The model records each call
  \<open>listener(value)\<close> in the order made.
\<close>

record 'l online_manager =
  om_online :: bool
  om_listeners :: "'l list"
  om_calls :: "('l \<times> bool) list"

definition OnlineManager :: "'l online_manager" where
  "OnlineManager = \<lparr>om_online = True, om_listeners = [], om_calls = []\<rparr>"

definition setOnline :: "bool \<Rightarrow> 'l online_manager \<Rightarrow> 'l online_manager" where
  "setOnline online om =
     (let changed = (om_online om \<noteq> online)
      in if changed
         then om\<lparr>om_online := online,
                 om_calls := om_calls om @ map (\<lambda>listener. (listener, online)) (om_listeners om)\<rparr>
         else om)"

definition isOnline :: "'l online_manager \<Rightarrow> bool" where
  "isOnline om = om_online om"

text \<open>
  \<open>#focused\<close> is \<open>boolean | undefined\<close>. The global document is either absent
  (\<open>None\<close>) or has a \<open>visibilityState\<close> string.
\<close>

record 'l focus_manager =
  fm_focused :: "bool option"
  fm_listeners :: "'l list"
  fm_calls :: "('l \<times> bool) list"

definition FocusManager :: "'l focus_manager" where
  "FocusManager = \<lparr>fm_focused = None, fm_listeners = [], fm_calls = []\<rparr>"

definition isFocused :: "string option \<Rightarrow> 'l focus_manager \<Rightarrow> bool" where
  "isFocused doc fm =
     (case fm_focused fm of
        Some b \<Rightarrow> b
      | None \<Rightarrow> (case doc of None \<Rightarrow> True | Some visibilityState \<Rightarrow> visibilityState \<noteq> ''hidden''))"

definition onFocus :: "string option \<Rightarrow> 'l focus_manager \<Rightarrow> 'l focus_manager" where
  "onFocus doc fm =
     (let focused = isFocused doc fm
      in fm\<lparr>fm_calls := fm_calls fm @ map (\<lambda>listener. (listener, focused)) (fm_listeners fm)\<rparr>)"

definition setFocused :: "string option \<Rightarrow> bool option \<Rightarrow> 'l focus_manager \<Rightarrow> 'l focus_manager" where
  "setFocused doc focused fm =
     (let changed = (fm_focused fm \<noteq> focused)
      in if changed then onFocus doc (fm\<lparr>fm_focused := focused\<rparr>) else fm)"

text \<open>
  The module-level singletons: the notify manager's closure state, the two
  managers, and the document's visibility.
\<close>

record ('cb, 'l) runtime = "'cb notify_manager" +
  focusManager :: "'l focus_manager"
  onlineManager :: "'l online_manager"
  document :: "string option"

text \<open>Example inputs: two managers with listeners 1 and 2 subscribed.\<close>

definition om_example :: "nat online_manager" where
  "om_example = \<lparr>om_online = True, om_listeners = [1, 2], om_calls = []\<rparr>"

definition fm_example :: "nat focus_manager" where
  "fm_example = \<lparr>fm_focused = Some True, fm_listeners = [1, 2], fm_calls = []\<rparr>"

section \<open>Retryer (retryer.ts)\<close>

text \<open>
  A JavaScript \<open>number\<close> as far as the retryer compares it: a finite value
  (every finite double is a rational), an infinity, or \<open>NaN\<close>.
\<close>

datatype number = Finite rat | PosInfinity | NegInfinity | NaN

text \<open>\<open>failureCount < n\<close> for the integer counter and a number \<open>n\<close>.\<close>

fun count_less :: "nat \<Rightarrow> number \<Rightarrow> bool" where
  "count_less k (Finite q) = (of_nat k < q)"
| "count_less k PosInfinity = True"
| "count_less k NegInfinity = False"
| "count_less k NaN = False"

datatype 'e RetryValue =
    RetryBool bool
  | RetryNumber number
  | RetryFunction "nat \<Rightarrow> 'e \<Rightarrow> bool"

datatype 'e RetryDelayValue =
    DelayNumber number
  | DelayFunction "nat \<Rightarrow> 'e \<Rightarrow> number"

datatype NetworkMode = Online | Always | OfflineFirst

definition defaultRetryDelay :: "nat \<Rightarrow> number" where
  "defaultRetryDelay failureCount = Finite (min (1000 * 2 ^ failureCount) 30000)"

text \<open>
  The configuration. The functions \<open>fn\<close>, \<open>abort\<close> and the \<open>on...\<close> callbacks
  are opaque user code: the model records the calls made to them.
  \<open>hasInitialPromise\<close> says whether \<open>config.initialPromise\<close> is defined.
  \<open>canRun\<close> is evaluated against the state of the world at the time of the call.
\<close>

record ('e, 'w) RetryerConfig =
  hasInitialPromise :: bool
  retry :: "'e RetryValue option"
  retryDelay :: "'e RetryDelayValue option"
  networkMode :: "NetworkMode option"
  canRun :: "'w \<Rightarrow> bool"

text \<open>
  Calls to the user's code and to \<open>sleep\<close>, in the order made. \<open>CallFn\<close> is
  a call of \<open>config.fn\<close> and \<open>AwaitInitialPromise\<close> the reuse of
  \<open>config.initialPromise\<close> in its place; each starts one attempt.
\<close>

datatype ('a, 'e) effect =
    CallFn
  | AwaitInitialPromise
  | OnSuccess 'a
  | OnError 'e
  | OnFail nat 'e
  | OnPause
  | OnContinue
  | Sleep number

text \<open>
  What is chained on the promise returned by \<open>pause()\<close>: \<open>start\<close> chains
  \<open>run\<close>; the retry path chains
  \<open>() => { if (isRetryCancelled) reject(error) else run() }\<close>.
\<close>

datatype 'e continuation = ThenRun | ThenRetry 'e

text \<open>
  The closure variables of \<open>createRetryer\<close>. \<open>continueFn\<close> is defined exactly
  while a pause is waiting; it is stored with the step chained on that pause.
\<close>

record ('a, 'e) retryer =
  isRetryCancelled :: bool
  failureCount :: nat
  isResolved :: bool
  continueFn :: "'e continuation option"
  thenable :: "('a, 'e) promise"
  effects :: "('a, 'e) effect list"

definition createRetryer :: "('a, 'e) retryer" where
  "createRetryer =
     \<lparr>isRetryCancelled = False, failureCount = 0, isResolved = False,
      continueFn = None, thenable = Pending, effects = []\<rparr>"

text \<open>A promise settles once: resolving or rejecting a settled promise changes nothing.\<close>

definition settle :: "('a, 'e) promise \<Rightarrow> ('a, 'e) promise \<Rightarrow> ('a, 'e) promise" where
  "settle outcome p = (case p of Pending \<Rightarrow> outcome | _ \<Rightarrow> p)"

definition cancelRetry :: "('a, 'e) retryer \<Rightarrow> ('a, 'e) retryer" where
  "cancelRetry r = r\<lparr>isRetryCancelled := True\<rparr>"

definition continueRetry :: "('a, 'e) retryer \<Rightarrow> ('a, 'e) retryer" where
  "continueRetry r = r\<lparr>isRetryCancelled := False\<rparr>"

definition canFetch :: "NetworkMode option \<Rightarrow> ('cb, 'l, 'z) runtime_scheme \<Rightarrow> bool" where
  "canFetch mode w =
     (if (case mode of None \<Rightarrow> Online | Some m \<Rightarrow> m) = Online
      then isOnline (onlineManager w)
      else True)"

definition canContinue ::
  "('e, ('cb, 'l, 'z) runtime_scheme) RetryerConfig \<Rightarrow> ('cb, 'l, 'z) runtime_scheme \<Rightarrow> bool" where
  "canContinue config w =
     (isFocused (document w) (focusManager w)
      \<and> (networkMode config = Some Always \<or> isOnline (onlineManager w))
      \<and> canRun config w)"

definition canStart ::
  "('e, ('cb, 'l, 'z) runtime_scheme) RetryerConfig \<Rightarrow> ('cb, 'l, 'z) runtime_scheme \<Rightarrow> bool" where
  "canStart config w = (canFetch (networkMode config) w \<and> canRun config w)"

text \<open>
  \<open>resolve\<close> and \<open>reject\<close>. Both call \<open>continueFn?.()\<close> after setting
  \<open>isResolved\<close>: a waiting pause is released, its \<open>then\<close> clears
  \<open>continueFn\<close> without calling \<open>onContinue\<close>, and the step chained on it does
  nothing because the retryer is resolved. The model keeps the net effect.
\<close>

definition resolve :: "'a \<Rightarrow> ('a, 'e) retryer \<Rightarrow> ('a, 'e) retryer" where
  "resolve v r =
     (if \<not> isResolved r
      then r\<lparr>isResolved := True,
              effects := effects r @ [OnSuccess v],
              continueFn := None,
              thenable := settle (Fulfilled v) (thenable r)\<rparr>
      else r)"

definition reject :: "'e \<Rightarrow> ('a, 'e) retryer \<Rightarrow> ('a, 'e) retryer" where
  "reject v r =
     (if \<not> isResolved r
      then r\<lparr>isResolved := True,
              effects := effects r @ [OnError v],
              continueFn := None,
              thenable := settle (Rejected v) (thenable r)\<rparr>
      else r)"

definition pause :: "'e continuation \<Rightarrow> ('a, 'e) retryer \<Rightarrow> ('a, 'e) retryer" where
  "pause chained r = r\<lparr>continueFn := Some chained, effects := effects r @ [OnPause]\<rparr>"

text \<open>\<open>run\<close> up to the start of the attempt; the attempt's outcome arrives later.\<close>

definition run :: "('e, 'w) RetryerConfig \<Rightarrow> ('a, 'e) retryer \<Rightarrow> ('a, 'e) retryer" where
  "run config r =
     (if isResolved r then r
      else r\<lparr>effects := effects r @
                [if failureCount r = 0 \<and> hasInitialPromise config then AwaitInitialPromise else CallFn]\<rparr>)"

text \<open>The step chained after the sleep and the possible pause.\<close>

fun run_chained ::
  "('e, 'w) RetryerConfig \<Rightarrow> 'e continuation \<Rightarrow> ('a, 'e) retryer \<Rightarrow> ('a, 'e) retryer" where
  "run_chained config ThenRun r = run config r"
| "run_chained config (ThenRetry error) r =
     (if isRetryCancelled r then reject error r else run config r)"

text \<open>
  The \<open>then\<close> that \<open>pause\<close> attaches to its own promise, followed by the
  chained step.
\<close>

definition pause_released ::
  "('e, 'w) RetryerConfig \<Rightarrow> 'e continuation \<Rightarrow> ('a, 'e) retryer \<Rightarrow> ('a, 'e) retryer" where
  "pause_released config chained r =
     (let r1 = r\<lparr>continueFn := None\<rparr>;
          r2 = (if \<not> isResolved r1 then r1\<lparr>effects := effects r1 @ [OnContinue]\<rparr> else r1)
      in run_chained config chained r2)"

text \<open>The retryer's \<open>continue()\<close>: \<open>continueFn?.()\<close>.\<close>

definition Retryer_continue ::
  "('e, ('cb, 'l, 'z) runtime_scheme) RetryerConfig \<Rightarrow> ('cb, 'l, 'z) runtime_scheme
   \<Rightarrow> ('a, 'e) retryer \<Rightarrow> ('a, 'e) retryer" where
  "Retryer_continue config w r =
     (case continueFn r of
        None \<Rightarrow> r
      | Some chained \<Rightarrow>
          if isResolved r \<or> canContinue config w then pause_released config chained r else r)"

text \<open>
  The handler attached by \<open>run\<close> with \<open>.catch\<close>: the attempt rejected with
  \<open>error\<close>. \<open>isServer\<close> is a constant of \<open>utils\<close>, taken as a parameter.
\<close>

definition run_catch ::
  "bool \<Rightarrow> ('e, 'w) RetryerConfig \<Rightarrow> 'e \<Rightarrow> ('a, 'e) retryer \<Rightarrow> ('a, 'e) retryer" where
  "run_catch isServer config error r =
     (if isResolved r then r
      else
        let retry' = (case retry config of
                        None \<Rightarrow> RetryNumber (Finite (if isServer then 0 else 3))
                      | Some v \<Rightarrow> v);
            retryDelay' = (case retryDelay config of
                             None \<Rightarrow> DelayFunction (\<lambda>failureCount _. defaultRetryDelay failureCount)
                           | Some d \<Rightarrow> d);
            delay = (case retryDelay' of
                       DelayFunction f \<Rightarrow> f (failureCount r) error
                     | DelayNumber d \<Rightarrow> d);
            shouldRetry =
              ((case retry' of RetryBool b \<Rightarrow> b | _ \<Rightarrow> False)
               \<or> (case retry' of RetryNumber n \<Rightarrow> count_less (failureCount r) n | _ \<Rightarrow> False)
               \<or> (case retry' of RetryFunction f \<Rightarrow> f (failureCount r) error | _ \<Rightarrow> False))
        in if isRetryCancelled r \<or> \<not> shouldRetry
           then reject error r
           else r\<lparr>failureCount := failureCount r + 1,
                   effects := effects r @ [OnFail (failureCount r + 1) error, Sleep delay]\<rparr>)"

text \<open>After the sleep: go on if \<open>canContinue()\<close>, else pause first.\<close>

definition run_afterSleep ::
  "('e, ('cb, 'l, 'z) runtime_scheme) RetryerConfig \<Rightarrow> ('cb, 'l, 'z) runtime_scheme
   \<Rightarrow> 'e \<Rightarrow> ('a, 'e) retryer \<Rightarrow> ('a, 'e) retryer" where
  "run_afterSleep config w error r =
     (if canContinue config w
      then run_chained config (ThenRetry error) r
      else pause (ThenRetry error) r)"

definition start ::
  "('e, ('cb, 'l, 'z) runtime_scheme) RetryerConfig \<Rightarrow> ('cb, 'l, 'z) runtime_scheme
   \<Rightarrow> ('a, 'e) retryer \<Rightarrow> ('a, 'e) retryer" where
  "start config w r =
     (if canStart config w then run config r else pause ThenRun r)"






text \<open>
  The retryer is resolved exactly when its promise has settled: only
  \<open>resolve\<close> and \<open>reject\<close> settle the promise, and both set \<open>isResolved\<close>.
\<close>

definition retryer_inv :: "('a, 'e) retryer \<Rightarrow> bool" where
  "retryer_inv r = (isResolved r = (thenable r \<noteq> Pending))"

text \<open>
  Example inputs: a world that is focused and online with nothing scheduled, a
  configuration with every option unset, and a retryer whose first attempt is
  in flight.
\<close>

definition world_example :: "(nat, nat) runtime" where
  "world_example =
     \<lparr>queue = [], transactions = 0, scheduled = [],
      focusManager = FocusManager, onlineManager = OnlineManager, document = None\<rparr>"

definition config_example :: "(string, (nat, nat) runtime) RetryerConfig" where
  "config_example =
     \<lparr>hasInitialPromise = False, retry = None, retryDelay = None,
      networkMode = None, canRun = (\<lambda>_. True)\<rparr>"

definition retryer_example :: "(nat, string) retryer" where
  "retryer_example = start config_example world_example createRetryer"

definition offline_example :: "(nat, nat) runtime" where
  "offline_example = world_example\<lparr>onlineManager := setOnline False OnlineManager\<rparr>"

section \<open>MutationCache (mutationCache) and the client's view of it\<close>

datatype MutationStatus = StatusIdle | StatusPending | StatusSuccess | StatusError

text \<open>
  What the cache reads of a \<open>Mutation\<close> object: \<open>options.scope?.id\<close>,
  \<open>state.status\<close> and \<open>state.isPaused\<close>. Mutations are objects compared by
  identity and mutated elsewhere, so the cache holds references and the
  objects live in a heap.
\<close>

record mutation =
  scope_id :: "string option"
  status :: MutationStatus
  isPaused :: bool

type_synonym mref = nat

datatype MutationCacheNotifyEvent = Added mref | Removed mref

text \<open>Calls made to the queries of the query cache.\<close>

datatype query_call = QueryOnFocus | QueryOnOnline

text \<open>
  The state of the engine: the singletons, the heap of mutations, the private
  fields of \<open>MutationCache\<close> (\<open>#mutations\<close> is a \<open>Set\<close> in insertion order,
  \<open>#scopes\<close> a \<open>Map\<close> to arrays), its listeners with the calls made to them,
  and the keys of the query cache's \<open>#queries\<close> in insertion order.

  Modelled from the spec: the classes \<open>Mutation\<close> and \<open>Query\<close> are not among
  the sources. Per the spec, \<open>continue()\<close> of a mutation, "if paused,
  transitions \<open>isPaused=false\<close> and restarts the Retryer", and \<open>onFocus()\<close> /
  \<open>onOnline()\<close> of a query refetch or resume that query. The model records the
  calls (\<open>continue_calls\<close>, \<open>query_calls\<close>) and takes the promise that
  \<open>continue()\<close> returns from \<open>continue_result\<close>.
\<close>

record ('cb, 'l, 'v, 'e) engine = "('cb, 'l) runtime" +
  heap :: "mref \<Rightarrow> mutation"
  mutations :: "mref list"
  scopes :: "string \<rightharpoonup> mref list"
  mutationId :: nat
  mc_listeners :: "'l list"
  mc_calls :: "('l \<times> MutationCacheNotifyEvent) list"
  continue_calls :: "mref list"
  continue_result :: "mref \<Rightarrow> ('v jsval, 'e) promise"
  queries :: "string list"
  query_calls :: "(string \<times> query_call) list"

definition scopeFor :: "('cb, 'l, 'v, 'e, 'z) engine_scheme \<Rightarrow> mref \<Rightarrow> string option" where
  "scopeFor w m = scope_id (heap w m)"

text \<open>
  \<open>notify(event)\<close>: inside \<open>notifyManager.batch\<close>, every listener is called
  with the event. Listeners are opaque and taken to return normally.
\<close>

definition MutationCache_notify ::
  "MutationCacheNotifyEvent \<Rightarrow> ('cb, 'l, 'v, 'e, 'z) engine_scheme \<Rightarrow> ('cb, 'l, 'v, 'e, 'z) engine_scheme" where
  "MutationCache_notify event w =
     snd (batch (\<lambda>w1. (Inr () :: unit + unit,
                       w1\<lparr>mc_calls := mc_calls w1 @ map (\<lambda>listener. (listener, event)) (mc_listeners w1)\<rparr>))
          w)"

definition MutationCache_add ::
  "mref \<Rightarrow> ('cb, 'l, 'v, 'e, 'z) engine_scheme \<Rightarrow> ('cb, 'l, 'v, 'e, 'z) engine_scheme" where
  "MutationCache_add m w =
     (let w1 = w\<lparr>mutations := (if m \<in> set (mutations w) then mutations w else mutations w @ [m])\<rparr>;
          w2 = (case scopeFor w1 m of
                  Some scope \<Rightarrow>
                    (case scopes w1 scope of
                       Some scopedMutations \<Rightarrow> w1\<lparr>scopes := (scopes w1)(scope \<mapsto> scopedMutations @ [m])\<rparr>
                     | None \<Rightarrow> w1\<lparr>scopes := (scopes w1)(scope \<mapsto> [m])\<rparr>)
                | None \<Rightarrow> w1)
      in MutationCache_notify (Added m) w2)"

text \<open>
  \<open>remove(mutation)\<close>. \<open>Set.delete\<close> returns whether the element was
  present; \<open>indexOf\<close> and \<open>splice(index, 1)\<close> remove the first occurrence if
  there is one; \<open>scopedMutations[0]\<close> on an empty array is \<open>undefined\<close>, which
  is no mutation.
\<close>

definition MutationCache_remove ::
  "mref \<Rightarrow> ('cb, 'l, 'v, 'e, 'z) engine_scheme \<Rightarrow> ('cb, 'l, 'v, 'e, 'z) engine_scheme" where
  "MutationCache_remove m w =
     (let w2 =
        (if m \<in> set (mutations w)
         then
           (let w1 = w\<lparr>mutations := removeAll m (mutations w)\<rparr>
            in case scopeFor w1 m of
                 Some scope \<Rightarrow>
                   (case scopes w1 scope of
                      Some scopedMutations \<Rightarrow>
                        if length scopedMutations > 1
                        then w1\<lparr>scopes := (scopes w1)(scope \<mapsto> remove1 m scopedMutations)\<rparr>
                        else if (case scopedMutations of [] \<Rightarrow> False | first # _ \<Rightarrow> first = m)
                        then w1\<lparr>scopes := (scopes w1)(scope := None)\<rparr>
                        else w1
                    | None \<Rightarrow> w1)
               | None \<Rightarrow> w1)
         else w)
      in MutationCache_notify (Removed m) w2)"

definition MutationCache_canRun ::
  "mref \<Rightarrow> ('cb, 'l, 'v, 'e, 'z) engine_scheme \<Rightarrow> bool" where
  "MutationCache_canRun m w =
     (case scopeFor w m of
        Some scope \<Rightarrow>
          (let mutationsWithSameScope = scopes w scope;
               firstPendingMutation =
                 (case mutationsWithSameScope of
                    None \<Rightarrow> None
                  | Some ms \<Rightarrow> List.find (\<lambda>x. status (heap w x) = StatusPending) ms)
           in firstPendingMutation = None \<or> firstPendingMutation = Some m)
      | None \<Rightarrow> True)"

text \<open>
  \<open>Promise.all\<close> over promises given by their outcomes. When several reject,
  JavaScript reports the one that rejects first in time; the model takes the
  first in list order.
\<close>

fun promise_all :: "('v jsval, 'e) promise list \<Rightarrow> ('v jsval list, 'e) promise" where
  "promise_all [] = Fulfilled []"
| "promise_all (Rejected e # ps) = Rejected e"
| "promise_all (Fulfilled v # ps) = then_promise (\<lambda>vs. v # vs) (promise_all ps)"
| "promise_all (Pending # ps) =
     (case promise_all ps of Rejected e \<Rightarrow> Rejected e | _ \<Rightarrow> Pending)"

text \<open>\<open>MutationCache.resumePausedMutations()\<close>.\<close>

definition MutationCache_resumePausedMutations ::
  "('cb, 'l, 'v, 'e, 'z) engine_scheme
   \<Rightarrow> (unit + ('v jsval, 'e) promise) \<times> ('cb, 'l, 'v, 'e, 'z) engine_scheme" where
  "MutationCache_resumePausedMutations w =
     (let pausedMutations = filter (\<lambda>x. isPaused (heap w x)) (mutations w)
      in batch (\<lambda>w1.
           (Inr (then_promise Array
                  (promise_all (map (\<lambda>m. catch_promise noop (continue_result w1 m)) pausedMutations))),
            w1\<lparr>continue_calls := continue_calls w1 @ pausedMutations\<rparr>))
         w)"

text \<open>\<open>QueryCache.onFocus()\<close> and \<open>QueryCache.onOnline()\<close> (queryCache.ts).\<close>

definition QueryCache_onFocus ::
  "('cb, 'l, 'v, 'e, 'z) engine_scheme \<Rightarrow> ('cb, 'l, 'v, 'e, 'z) engine_scheme" where
  "QueryCache_onFocus w =
     snd (batch (\<lambda>w1. (Inr () :: unit + unit,
                       w1\<lparr>query_calls := query_calls w1 @ map (\<lambda>query. (query, QueryOnFocus)) (queries w1)\<rparr>))
          w)"

definition QueryCache_onOnline ::
  "('cb, 'l, 'v, 'e, 'z) engine_scheme \<Rightarrow> ('cb, 'l, 'v, 'e, 'z) engine_scheme" where
  "QueryCache_onOnline w =
     snd (batch (\<lambda>w1. (Inr () :: unit + unit,
                       w1\<lparr>query_calls := query_calls w1 @ map (\<lambda>query. (query, QueryOnOnline)) (queries w1)\<rparr>))
          w)"

text \<open>\<open>QueryClient.resumePausedMutations()\<close> (queryClient.ts).\<close>

definition QueryClient_resumePausedMutations ::
  "('cb, 'l, 'v, 'e, 'z) engine_scheme
   \<Rightarrow> (unit + ('v jsval, 'e) promise) \<times> ('cb, 'l, 'v, 'e, 'z) engine_scheme" where
  "QueryClient_resumePausedMutations w =
     (if isOnline (onlineManager w)
      then MutationCache_resumePausedMutations w
      else (Inr (Fulfilled Undefined), w))"

text \<open>
  The two listeners that \<open>mount()\<close> subscribes to the focus manager and to the
  online manager. Each awaits \<open>resumePausedMutations()\<close> and goes on to the
  query cache once that promise is fulfilled.
\<close>

definition mount_focusListener ::
  "bool \<Rightarrow> ('cb, 'l, 'v, 'e, 'z) engine_scheme \<Rightarrow> ('cb, 'l, 'v, 'e, 'z) engine_scheme" where
  "mount_focusListener focused w =
     (if focused
      then (case QueryClient_resumePausedMutations w of
              (Inr (Fulfilled _), w1) \<Rightarrow> QueryCache_onFocus w1
            | (_, w1) \<Rightarrow> w1)
      else w)"

definition mount_onlineListener ::
  "bool \<Rightarrow> ('cb, 'l, 'v, 'e, 'z) engine_scheme \<Rightarrow> ('cb, 'l, 'v, 'e, 'z) engine_scheme" where
  "mount_onlineListener online w =
     (if online
      then (case QueryClient_resumePausedMutations w of
              (Inr (Fulfilled _), w1) \<Rightarrow> QueryCache_onOnline w1
            | (_, w1) \<Rightarrow> w1)
      else w)"

text \<open>
  Example input: mutations 1, 2, 3 in scope \<open>x\<close> (1 succeeded, 2 and 3 pending,
  3 paused) and the unscoped mutation 4; the cache holds 1, 2 and 3, listeners
  10 and 11 are subscribed to it.
\<close>

definition heap_example :: "mref \<Rightarrow> mutation" where
  "heap_example m =
     (if m = 1 then \<lparr>scope_id = Some ''x'', status = StatusSuccess, isPaused = False\<rparr>
      else if m = 2 then \<lparr>scope_id = Some ''x'', status = StatusPending, isPaused = False\<rparr>
      else if m = 3 then \<lparr>scope_id = Some ''x'', status = StatusPending, isPaused = True\<rparr>
      else \<lparr>scope_id = None, status = StatusPending, isPaused = False\<rparr>)"

definition engine_example :: "(nat, nat, nat, string) engine" where
  "engine_example =
     \<lparr>queue = [], transactions = 0, scheduled = [],
      focusManager = FocusManager, onlineManager = OnlineManager, document = None,
      heap = heap_example, mutations = [1, 2, 3],
      scopes = [''x'' \<mapsto> [1, 2, 3]], mutationId = 3,
      mc_listeners = [10, 11], mc_calls = [],
      continue_calls = [], continue_result = (\<lambda>_. Pending),
      queries = [''q''], query_calls = []\<rparr>"

definition engine_offline_example :: "(nat, nat, nat, string) engine" where
  "engine_offline_example = engine_example\<lparr>onlineManager := setOnline False OnlineManager\<rparr>"

section \<open>QueryClient: fetchQuery, prefetchQuery, ensureQueryData (queryClient.ts)\<close>

text \<open>
  The query options that the functions below read or write; every other
  option travels in the record's extension.
\<close>

record 'e query_options =
  opt_retry :: "'e RetryValue option"
  opt_retryDelay :: "'e RetryDelayValue option"
  opt_networkMode :: "NetworkMode option"
  opt_revalidateIfStale :: bool

text \<open>
  What \<open>fetchQuery\<close> and its callers call on the client, the query cache and
  the query, over a state \<open>'s\<close> of the client and its caches:
  \<^item> \<open>defaultQueryOptions\<close>: \<open>this.defaultQueryOptions(options)\<close>, which merges
    the client's defaults under the given options; the properties below hold
    for every such function;
  \<^item> \<open>build\<close>: \<open>this.#queryCache.build(this, options)\<close>, returning the query;
  \<^item> \<open>isStaleByTime\<close>:
    \<open>query.isStaleByTime(resolveStaleTime(options.staleTime, query))\<close>;
  \<^item> \<open>fetch\<close>: \<open>query.fetch(options)\<close>, returning the promise;
  \<^item> \<open>state_data\<close>: \<open>query.state.data\<close>;
  \<^item> \<open>infiniteBehavior\<close>: the options after
    \<open>options.behavior = infiniteQueryBehavior(options.pages)\<close>.
\<close>

record ('o, 'q, 'v, 'e, 's) query_deps =
  defaultQueryOptions :: "'o \<Rightarrow> 's \<Rightarrow> 'o"
  build :: "'o \<Rightarrow> 's \<Rightarrow> 'q \<times> 's"
  isStaleByTime :: "'o \<Rightarrow> 'q \<Rightarrow> 's \<Rightarrow> bool"
  fetch :: "'q \<Rightarrow> 'o \<Rightarrow> 's \<Rightarrow> ('v jsval, 'e) promise \<times> 's"
  state_data :: "'q \<Rightarrow> 's \<Rightarrow> 'v jsval"
  infiniteBehavior :: "'o \<Rightarrow> 'o"

definition fetchQuery ::
  "(('e, 'z) query_options_scheme, 'q, 'v, 'e, 's) query_deps
   \<Rightarrow> ('e, 'z) query_options_scheme \<Rightarrow> 's \<Rightarrow> ('v jsval, 'e) promise \<times> 's" where
  "fetchQuery deps options s =
     (let defaultedOptions0 = defaultQueryOptions deps options s;
          defaultedOptions =
            (if opt_retry defaultedOptions0 = None
             then defaultedOptions0\<lparr>opt_retry := Some (RetryBool False)\<rparr>
             else defaultedOptions0);
          (query, s1) = build deps defaultedOptions s
      in if isStaleByTime deps defaultedOptions query s1
         then fetch deps query defaultedOptions s1
         else (Fulfilled (state_data deps query s1), s1))"

definition prefetchQuery ::
  "(('e, 'z) query_options_scheme, 'q, 'v, 'e, 's) query_deps
   \<Rightarrow> ('e, 'z) query_options_scheme \<Rightarrow> 's \<Rightarrow> ('v jsval, 'e) promise \<times> 's" where
  "prefetchQuery deps options s =
     (let (p, s1) = fetchQuery deps options s
      in (catch_promise noop (then_promise noop p), s1))"

definition fetchInfiniteQuery ::
  "(('e, 'z) query_options_scheme, 'q, 'v, 'e, 's) query_deps
   \<Rightarrow> ('e, 'z) query_options_scheme \<Rightarrow> 's \<Rightarrow> ('v jsval, 'e) promise \<times> 's" where
  "fetchInfiniteQuery deps options s = fetchQuery deps (infiniteBehavior deps options) s"

definition prefetchInfiniteQuery ::
  "(('e, 'z) query_options_scheme, 'q, 'v, 'e, 's) query_deps
   \<Rightarrow> ('e, 'z) query_options_scheme \<Rightarrow> 's \<Rightarrow> ('v jsval, 'e) promise \<times> 's" where
  "prefetchInfiniteQuery deps options s =
     (let (p, s1) = fetchInfiniteQuery deps options s
      in (catch_promise noop (then_promise noop p), s1))"







text \<open>
  Example input: a client without defaults whose cache is empty, so that every
  query is built fresh, is stale, and has no data; the state counts the calls
  of the query function, which always fails with \<open>boom\<close>.
\<close>

definition options_example :: "string query_options" where
  "options_example =
     \<lparr>opt_retry = None, opt_retryDelay = None, opt_networkMode = None,
      opt_revalidateIfStale = False\<rparr>"

definition deps_example :: "(string query_options, unit, nat, string, nat) query_deps" where
  "deps_example =
     \<lparr>defaultQueryOptions = (\<lambda>options s. options),
      build = (\<lambda>options s. ((), s)),
      isStaleByTime = (\<lambda>options query s. True),
      fetch = (\<lambda>query options s. (Rejected ''boom'', s + 1)),
      state_data = (\<lambda>query s. Undefined),
      infiniteBehavior = (\<lambda>options. options)\<rparr>"





section \<open>NotifyManager: properties\<close>

lemma flush_queue: "queue (flush st) = []"
  by (simp add: flush_def Let_def)

lemma flush_transactions: "transactions (flush st) = transactions st"
  by (simp add: flush_def Let_def)

lemma flush_scheduled:
  "scheduled (flush st) =
     scheduled st @ (if queue st = [] then [] else [FlushTask (queue st)])"
  by (simp add: flush_def Let_def)

lemma batch_result: "callback (st\<lparr>transactions := transactions st + 1\<rparr>) = (r0, st0) \<Longrightarrow>
  fst (batch callback st) = r0"
  by (simp add: batch_def Let_def)

lemma batch_state: "callback (st\<lparr>transactions := transactions st + 1\<rparr>) = (r0, st0) \<Longrightarrow>
  snd (batch callback st) =
    (if transactions st0 = 1 then flush (st0\<lparr>transactions := 0\<rparr>)
     else st0\<lparr>transactions := transactions st0 - 1\<rparr>)"
  by (simp add: batch_def Let_def)

text \<open>
  C4. \<open>batch\<close> runs the callback one level deeper, lowers the depth by one
  whatever the callback did (returned \<open>Inr\<close> or threw \<open>Inl\<close>), hands back the
  callback's own result or exception, and when the depth is back at 0 takes the
  queue (leaving it empty) and passes it to \<open>scheduleFn\<close> as one flush task
  (nothing is scheduled for an empty queue); at any other depth the queue and
  the scheduler are left alone.
\<close>

theorem batch_decrements_and_flushes:
  assumes "callback (st\<lparr>transactions := transactions st + 1\<rparr>) = (r0, st0)"
  shows "fst (batch callback st) = r0
       \<and> transactions (snd (batch callback st)) = transactions st0 - 1
       \<and> (transactions st0 - 1 = 0 \<longrightarrow>
            queue (snd (batch callback st)) = []
          \<and> scheduled (snd (batch callback st)) =
              scheduled st0 @ (if queue st0 = [] then [] else [FlushTask (queue st0)]))
       \<and> (transactions st0 - 1 \<noteq> 0 \<longrightarrow>
            queue (snd (batch callback st)) = queue st0
          \<and> scheduled (snd (batch callback st)) = scheduled st0)"
proof -
  have s: "snd (batch callback st) =
      (if transactions st0 = 1 then flush (st0\<lparr>transactions := 0\<rparr>)
       else st0\<lparr>transactions := transactions st0 - 1\<rparr>)"
    using assms by (rule batch_state)
  show ?thesis
  proof (cases "transactions st0 = 1")
    case True
    then show ?thesis
      using assms s
      by (simp add: batch_result flush_queue flush_transactions flush_scheduled)
  next
    case False
    then show ?thesis
      using assms s by (simp add: batch_result)
  qed
qed

text \<open>
  A callback that schedules callback 7 and then throws, run at depth 0: the
  exception comes back, the depth is 0 again and callback 7 has been flushed.
\<close>

theorem batch_decrements_and_flushes_witness:
  "throwing_callback (idle_manager\<lparr>transactions := transactions idle_manager + 1\<rparr>)
     = (Inl ''boom'', \<lparr>queue = [7], transactions = 1, scheduled = []\<rparr>)
   \<and> fst (batch throwing_callback idle_manager) = Inl ''boom''
   \<and> transactions (snd (batch throwing_callback idle_manager)) = 0
   \<and> queue (snd (batch throwing_callback idle_manager)) = []
   \<and> scheduled (snd (batch throwing_callback idle_manager)) = [FlushTask [7]]"
proof -
  have h: "throwing_callback (idle_manager\<lparr>transactions := transactions idle_manager + 1\<rparr>)
     = (Inl ''boom'', \<lparr>queue = [7], transactions = 1, scheduled = []\<rparr>)"
    by (simp add: throwing_callback_def idle_manager_def createNotifyManager_def schedule_def)
  from batch_decrements_and_flushes [of throwing_callback idle_manager, OF h] h
  show ?thesis
    by simp
qed

lemma schedule_in_transaction:
  "transactions st \<noteq> 0 \<Longrightarrow> schedule cb st = st\<lparr>queue := queue st @ [cb]\<rparr>"
  by (simp add: schedule_def)

lemma schedule_outside_transaction:
  "transactions st = 0 \<Longrightarrow> schedule cb st = st\<lparr>scheduled := scheduled st @ [NotifyTask cb]\<rparr>"
  by (simp add: schedule_def)

lemma foldl_schedule_in_transaction:
  "transactions st \<noteq> 0 \<Longrightarrow>
   foldl (\<lambda>s cb. schedule cb s) st cbs = st\<lparr>queue := queue st @ cbs\<rparr>"
proof (induction cbs arbitrary: st)
  case Nil
  then show ?case by simp
next
  case (Cons c cbs)
  have "foldl (\<lambda>s cb. schedule cb s) (schedule c st) cbs
      = (schedule c st)\<lparr>queue := queue (schedule c st) @ cbs\<rparr>"
    using Cons.prems by (intro Cons.IH) (simp add: schedule_def)
  then show ?case
    using Cons.prems by (simp add: schedule_in_transaction)
qed

lemma batch_schedule_all:
  assumes "transactions st = 0" and "queue st = []"
  shows "snd (batch (schedule_all cbs) st) =
           st\<lparr>scheduled := scheduled st @ (if cbs = [] then [] else [FlushTask cbs])\<rparr>"
proof -
  let ?st1 = "st\<lparr>transactions := transactions st + 1\<rparr>"
  have t: "transactions ?st1 \<noteq> 0" using assms by simp
  have c: "schedule_all cbs ?st1 = (Inr (), ?st1\<lparr>queue := queue ?st1 @ cbs\<rparr>)"
    unfolding schedule_all_def using foldl_schedule_in_transaction [OF t] by simp
  show ?thesis
    using assms by (simp add: batch_state [of "schedule_all cbs" st, OF c] flush_def Let_def)
qed

text \<open>
  C5. Inside a transaction \<open>schedule\<close> only appends to the queue; at depth 0
  it hands \<open>scheduleFn\<close> a task that calls \<open>notifyFn\<close> on the callback. A
  flush hands \<open>scheduleFn\<close> at most one task, none for an empty queue, and that
  task is one \<open>batchNotifyFn\<close> call around the \<open>notifyFn\<close> calls in queue
  order. Hence a batch entered at depth 0 with an empty queue, whose body
  schedules \<open>cbs\<close>, makes exactly one \<open>scheduleFn\<close> call delivering \<open>cbs\<close> in
  order, and none when \<open>cbs\<close> is empty.
\<close>

theorem schedule_queues_and_flush_keeps_order:
  "(0 < transactions st \<longrightarrow>
      schedule cb st = st\<lparr>queue := queue st @ [cb]\<rparr>)
   \<and> (transactions st = 0 \<longrightarrow>
      schedule cb st = st\<lparr>scheduled := scheduled st @ [NotifyTask cb]\<rparr>
      \<and> run_task (NotifyTask cb) = [NotifyFn cb])
   \<and> queue (flush st) = []
   \<and> (queue st = [] \<longrightarrow> scheduled (flush st) = scheduled st)
   \<and> (queue st \<noteq> [] \<longrightarrow>
      scheduled (flush st) = scheduled st @ [FlushTask (queue st)]
      \<and> run_task (FlushTask (queue st)) = [BatchNotifyFn (map NotifyFn (queue st))])
   \<and> (transactions st = 0 \<and> queue st = [] \<longrightarrow>
      scheduled (snd (batch (schedule_all cbs) st)) =
        scheduled st @ (if cbs = [] then [] else [FlushTask cbs])
      \<and> concat (map run_task (if cbs = [] then [] else [FlushTask cbs])) =
        (if cbs = [] then [] else [BatchNotifyFn (map NotifyFn cbs)]))"
proof -
  have a: "0 < transactions st \<longrightarrow> schedule cb st = st\<lparr>queue := queue st @ [cb]\<rparr>"
    by (simp add: schedule_in_transaction)
  have b: "transactions st = 0 \<longrightarrow>
      schedule cb st = st\<lparr>scheduled := scheduled st @ [NotifyTask cb]\<rparr>
      \<and> run_task (NotifyTask cb) = [NotifyFn cb]"
    by (simp add: schedule_outside_transaction)
  have c: "queue st = [] \<longrightarrow> scheduled (flush st) = scheduled st"
    by (simp add: flush_scheduled)
  have d: "queue st \<noteq> [] \<longrightarrow>
      scheduled (flush st) = scheduled st @ [FlushTask (queue st)]
      \<and> run_task (FlushTask (queue st)) = [BatchNotifyFn (map NotifyFn (queue st))]"
    by (simp add: flush_scheduled)
  have e: "transactions st = 0 \<and> queue st = [] \<longrightarrow>
      scheduled (snd (batch (schedule_all cbs) st)) =
        scheduled st @ (if cbs = [] then [] else [FlushTask cbs])
      \<and> concat (map run_task (if cbs = [] then [] else [FlushTask cbs])) =
        (if cbs = [] then [] else [BatchNotifyFn (map NotifyFn cbs)])"
    by (simp add: batch_schedule_all)
  from a b c d e flush_queue [of st] show ?thesis by blast
qed

text \<open>
  Three callbacks scheduled inside one batch on a fresh manager arrive in one
  task, in the order 1, 2, 3; one callback scheduled outside a batch goes to
  the scheduler at once.
\<close>

theorem schedule_queues_and_flush_keeps_order_witness:
  "transactions idle_manager = 0 \<and> queue idle_manager = []
   \<and> schedule 5 idle_manager = idle_manager\<lparr>scheduled := [NotifyTask 5]\<rparr>
   \<and> scheduled (snd (batch (schedule_all [1, 2, 3]) idle_manager)) = [FlushTask [1, 2, 3]]
   \<and> concat (map run_task [FlushTask [1, 2, 3 :: nat]])
        = [BatchNotifyFn [NotifyFn 1, NotifyFn 2, NotifyFn 3]]
   \<and> 0 < transactions (idle_manager\<lparr>transactions := 1\<rparr>)
   \<and> schedule 5 (idle_manager\<lparr>transactions := 1\<rparr>)
        = idle_manager\<lparr>transactions := 1, queue := [5]\<rparr>
   \<and> queue (idle_manager\<lparr>queue := [4, 5]\<rparr>) \<noteq> []
   \<and> scheduled (flush (idle_manager\<lparr>queue := [4, 5]\<rparr>)) = [FlushTask [4, 5]]
   \<and> scheduled (flush idle_manager) = []"
  using schedule_queues_and_flush_keeps_order [of idle_manager 5 "[1, 2, 3]"]
    schedule_queues_and_flush_keeps_order [of "idle_manager\<lparr>transactions := 1\<rparr>" 5 "[]"]
    schedule_queues_and_flush_keeps_order [of "idle_manager\<lparr>queue := [4, 5]\<rparr>" 5 "[]"]
  by (simp add: idle_manager_def createNotifyManager_def)

section \<open>FocusManager and OnlineManager: properties\<close>

lemma setOnline_calls:
  "om_calls (setOnline b om) =
     om_calls om @ (if om_online om \<noteq> b then map (\<lambda>l. (l, b)) (om_listeners om) else [])"
  by (simp add: setOnline_def Let_def)

lemma setFocused_calls:
  "fm_calls (setFocused doc (Some b) fm) =
     fm_calls fm @ (if fm_focused fm \<noteq> Some b then map (\<lambda>l. (l, b)) (fm_listeners fm) else [])"
  by (simp add: setFocused_def onFocus_def isFocused_def Let_def)

text \<open>
  C6. \<open>setOnline(b)\<close> and \<open>setFocused(b)\<close> with a boolean \<open>b\<close> call the
  listeners exactly when \<open>b\<close> differs from the stored value: then every
  subscribed listener is called once with \<open>b\<close>, in subscription order, and the
  stored value becomes \<open>b\<close>; when \<open>b\<close> equals the stored value no listener is
  called and the manager is unchanged.
\<close>

theorem managers_notify_only_on_change:
  "(om_online om \<noteq> b \<longrightarrow>
      om_calls (setOnline b om) = om_calls om @ map (\<lambda>l. (l, b)) (om_listeners om)
      \<and> isOnline (setOnline b om) = b)
   \<and> (om_online om = b \<longrightarrow> setOnline b om = om)
   \<and> (fm_focused fm \<noteq> Some b \<longrightarrow>
      fm_calls (setFocused doc (Some b) fm) = fm_calls fm @ map (\<lambda>l. (l, b)) (fm_listeners fm)
      \<and> fm_focused (setFocused doc (Some b) fm) = Some b)
   \<and> (fm_focused fm = Some b \<longrightarrow> setFocused doc (Some b) fm = fm)"
proof -
  have 1: "om_online om \<noteq> b \<longrightarrow>
      om_calls (setOnline b om) = om_calls om @ map (\<lambda>l. (l, b)) (om_listeners om)
      \<and> isOnline (setOnline b om) = b"
    by (simp add: setOnline_def isOnline_def Let_def)
  have 2: "om_online om = b \<longrightarrow> setOnline b om = om"
    by (simp add: setOnline_def Let_def)
  have 3: "fm_focused fm \<noteq> Some b \<longrightarrow>
      fm_calls (setFocused doc (Some b) fm) = fm_calls fm @ map (\<lambda>l. (l, b)) (fm_listeners fm)
      \<and> fm_focused (setFocused doc (Some b) fm) = Some b"
    by (simp add: setFocused_def onFocus_def isFocused_def Let_def)
  have 4: "fm_focused fm = Some b \<longrightarrow> setFocused doc (Some b) fm = fm"
    by (simp add: setFocused_def Let_def)
  from 1 2 3 4 show ?thesis by blast
qed

text \<open>
  Going offline from online calls listeners 1 and 2 with \<open>False\<close>; repeating
  the stored value calls nobody. The same for focus.
\<close>

theorem managers_notify_only_on_change_witness:
  "om_online om_example \<noteq> False
   \<and> om_calls (setOnline False om_example) = [(1, False), (2, False)]
   \<and> om_online om_example = True
   \<and> setOnline True om_example = om_example
   \<and> fm_focused fm_example \<noteq> Some False
   \<and> fm_calls (setFocused None (Some False) fm_example) = [(1, False), (2, False)]
   \<and> fm_focused fm_example = Some True
   \<and> setFocused None (Some True) fm_example = fm_example"
  using managers_notify_only_on_change [of om_example False fm_example None]
    managers_notify_only_on_change [of om_example True fm_example None]
  by (simp add: om_example_def fm_example_def)

section \<open>Retryer: properties\<close>

lemma retryer_inv_createRetryer: "retryer_inv createRetryer"
  by (simp add: retryer_inv_def createRetryer_def)

lemma retryer_inv_resolve: "retryer_inv r \<Longrightarrow> retryer_inv (resolve v r)"
  by (simp add: retryer_inv_def resolve_def settle_def)

lemma retryer_inv_reject: "retryer_inv r \<Longrightarrow> retryer_inv (reject e r)"
  by (simp add: retryer_inv_def reject_def settle_def)

lemma retryer_inv_run: "retryer_inv r \<Longrightarrow> retryer_inv (run config r)"
  by (simp add: retryer_inv_def run_def)

lemma retryer_inv_pause: "retryer_inv r \<Longrightarrow> retryer_inv (pause k r)"
  by (simp add: retryer_inv_def pause_def)

lemma retryer_inv_run_chained: "retryer_inv r \<Longrightarrow> retryer_inv (run_chained config k r)"
  by (cases k) (simp_all add: retryer_inv_run retryer_inv_reject)

lemma retryer_inv_pause_released:
  "retryer_inv r \<Longrightarrow> retryer_inv (pause_released config k r)"
proof -
  assume inv: "retryer_inv r"
  have 1: "retryer_inv (r\<lparr>continueFn := None\<rparr>)"
    using inv by (simp add: retryer_inv_def)
  have 2: "retryer_inv (r\<lparr>continueFn := None, effects := effects r @ [OnContinue]\<rparr>)"
    using inv by (simp add: retryer_inv_def)
  show ?thesis
    using retryer_inv_run_chained [OF 1, of config k] retryer_inv_run_chained [OF 2, of config k]
    by (simp add: pause_released_def Let_def)
qed

lemma retryer_inv_continue:
  "retryer_inv r \<Longrightarrow> retryer_inv (Retryer_continue config w r)"
  by (simp add: Retryer_continue_def retryer_inv_pause_released split: option.splits)

lemma retryer_inv_run_catch:
  "retryer_inv r \<Longrightarrow> retryer_inv (run_catch isServer config e r)"
  by (simp add: run_catch_def Let_def retryer_inv_reject) (simp add: retryer_inv_def)

lemma retryer_inv_run_afterSleep:
  "retryer_inv r \<Longrightarrow> retryer_inv (run_afterSleep config w e r)"
  by (simp add: run_afterSleep_def retryer_inv_pause retryer_inv_reject retryer_inv_run)

lemma retryer_inv_start: "retryer_inv r \<Longrightarrow> retryer_inv (start config w r)"
  by (simp add: start_def retryer_inv_pause retryer_inv_run)

lemma retryer_inv_cancelRetry:
  "retryer_inv r \<Longrightarrow> retryer_inv (cancelRetry r) \<and> retryer_inv (continueRetry r)"
  by (simp add: retryer_inv_def cancelRetry_def continueRetry_def)

lemma reject_unresolved:
  "\<not> isResolved r \<Longrightarrow> thenable r = Pending \<Longrightarrow>
   reject e r = r\<lparr>isResolved := True, effects := effects r @ [OnError e],
                   continueFn := None, thenable := Rejected e\<rparr>"
  by (simp add: reject_def settle_def)

lemma run_catch_cases:
  assumes "\<not> isResolved r"
  shows "run_catch isServer config e r =
     (if isRetryCancelled r
         \<or> \<not> (case (case retry config of
                        None \<Rightarrow> RetryNumber (Finite (if isServer then 0 else 3))
                      | Some v \<Rightarrow> v) of
                 RetryBool b \<Rightarrow> b
               | RetryNumber n \<Rightarrow> count_less (failureCount r) n
               | RetryFunction f \<Rightarrow> f (failureCount r) e)
      then reject e r
      else r\<lparr>failureCount := failureCount r + 1,
              effects := effects r @
                [OnFail (failureCount r + 1) e,
                 Sleep (case (case retryDelay config of
                                None \<Rightarrow> DelayFunction (\<lambda>failureCount _. defaultRetryDelay failureCount)
                              | Some d \<Rightarrow> d) of
                          DelayFunction f \<Rightarrow> f (failureCount r) e
                        | DelayNumber d \<Rightarrow> d)]\<rparr>)"
  using assms
  by (simp add: run_catch_def Let_def split: option.splits RetryValue.splits)

text \<open>
  C1. An attempt rejects with \<open>e\<close> while the retryer is unresolved (its promise
  pending). The retry option in force is the configured one, or 3 (0 on the
  server) when unset. Retrying is allowed exactly when that option is \<open>true\<close>,
  or a number above the failure count, or a function that returns true on the
  failure count and \<open>e\<close>. The handler goes on to a retry (counts the failure,
  calls \<open>onFail\<close>, sleeps, leaves the promise pending) exactly when retrying is
  allowed and the retry-cancel flag is clear; otherwise it rejects the promise
  with \<open>e\<close> without counting a failure. With \<open>retry = 0\<close> it always rejects.
  After the sleep of a retry, if \<open>canContinue()\<close> holds, \<open>config.fn\<close> is
  called again.
\<close>

theorem retry_decision:
  assumes "\<not> isResolved r" and "thenable r = Pending"
    and "eff = (case retry config of
                  None \<Rightarrow> RetryNumber (Finite (if isServer then 0 else 3))
                | Some v \<Rightarrow> v)"
    and "allowed = (eff = RetryBool True
                    \<or> (\<exists>n. eff = RetryNumber n \<and> count_less (failureCount r) n)
                    \<or> (\<exists>f. eff = RetryFunction f \<and> f (failureCount r) e))"
    and "r' = run_catch isServer config e r"
  shows "((failureCount r' = failureCount r + 1
           \<and> (\<exists>delay. effects r' = effects r @ [OnFail (failureCount r + 1) e, Sleep delay])
           \<and> thenable r' = Pending \<and> \<not> isResolved r')
          \<longleftrightarrow> (\<not> isRetryCancelled r \<and> allowed))
       \<and> (isRetryCancelled r \<or> \<not> allowed \<longrightarrow>
            thenable r' = Rejected e \<and> isResolved r'
            \<and> failureCount r' = failureCount r
            \<and> effects r' = effects r @ [OnError e])
       \<and> (retry config = Some (RetryNumber (Finite 0)) \<longrightarrow> thenable r' = Rejected e)
       \<and> (\<not> isRetryCancelled r \<and> allowed \<and> canContinue config w \<longrightarrow>
            (\<exists>delay. effects (run_afterSleep config w e r') =
               effects r @ [OnFail (failureCount r + 1) e, Sleep delay, CallFn]))"
proof -
  have al: "allowed = (case eff of
                 RetryBool b \<Rightarrow> b
               | RetryNumber n \<Rightarrow> count_less (failureCount r) n
               | RetryFunction f \<Rightarrow> f (failureCount r) e)"
    using assms(4) by (cases eff) auto
  have rc: "r' = (if isRetryCancelled r \<or> \<not> allowed then reject e r
      else r\<lparr>failureCount := failureCount r + 1,
              effects := effects r @
                [OnFail (failureCount r + 1) e,
                 Sleep (case (case retryDelay config of
                                None \<Rightarrow> DelayFunction (\<lambda>failureCount _. defaultRetryDelay failureCount)
                              | Some d \<Rightarrow> d) of
                          DelayFunction f \<Rightarrow> f (failureCount r) e
                        | DelayNumber d \<Rightarrow> d)]\<rparr>)"
    unfolding assms(5) al assms(3) by (rule run_catch_cases [OF assms(1)])
  have zero: "retry config = Some (RetryNumber (Finite 0)) \<Longrightarrow> \<not> allowed"
    using al assms(3) by simp
  show ?thesis
  proof (cases "isRetryCancelled r \<or> \<not> allowed")
    case True
    then have "r' = reject e r" using rc by simp
    then have r': "r' = r\<lparr>isResolved := True, effects := effects r @ [OnError e],
                   continueFn := None, thenable := Rejected e\<rparr>"
      using assms(1,2) by (simp add: reject_unresolved)
    show ?thesis using True by (auto simp: r')
  next
    case False
    then have r': "r' = r\<lparr>failureCount := failureCount r + 1,
              effects := effects r @
                [OnFail (failureCount r + 1) e,
                 Sleep (case (case retryDelay config of
                                None \<Rightarrow> DelayFunction (\<lambda>failureCount _. defaultRetryDelay failureCount)
                              | Some d \<Rightarrow> d) of
                          DelayFunction f \<Rightarrow> f (failureCount r) e
                        | DelayNumber d \<Rightarrow> d)]\<rparr>"
      using rc by simp
    have again: "canContinue config w \<Longrightarrow>
        \<exists>delay. effects (run_afterSleep config w e r') =
               effects r @ [OnFail (failureCount r + 1) e, Sleep delay, CallFn]"
      using False assms(1) by (simp add: r' run_afterSleep_def run_def)
    show ?thesis using False assms(1,2) zero again by (auto simp: r')
  qed
qed

text \<open>
  With every option unset on a client, the first rejection of a started
  retryer leads to a retry after the default delay of 1000 ms; with the
  retry-cancel flag set the same rejection rejects the promise, and
  \<open>config.fn\<close> has been called once.
\<close>

theorem retry_decision_witness:
  "\<not> isResolved retryer_example \<and> thenable retryer_example = Pending
   \<and> \<not> isRetryCancelled retryer_example
   \<and> count_less (failureCount retryer_example) (Finite 3)
   \<and> run_catch False config_example ''boom'' retryer_example
       = retryer_example\<lparr>failureCount := 1,
           effects := [CallFn, OnFail 1 ''boom'', Sleep (Finite 1000)]\<rparr>
   \<and> canContinue config_example world_example
   \<and> effects (run_afterSleep config_example world_example ''boom''
         (run_catch False config_example ''boom'' retryer_example))
       = [CallFn, OnFail 1 ''boom'', Sleep (Finite 1000), CallFn]
   \<and> isRetryCancelled (cancelRetry retryer_example)
   \<and> thenable (run_catch False config_example ''boom'' (cancelRetry retryer_example))
       = Rejected ''boom''
   \<and> effects (run_catch False config_example ''boom'' (cancelRetry retryer_example))
       = [CallFn, OnError ''boom'']
   \<and> thenable (run_catch False (config_example\<lparr>retry := Some (RetryNumber (Finite 0))\<rparr>)
                 ''boom'' retryer_example) = Rejected ''boom''"
proof -
  have ex: "retryer_example =
      \<lparr>isRetryCancelled = False, failureCount = 0, isResolved = False,
       continueFn = None, thenable = Pending, effects = [CallFn]\<rparr>"
    by (simp add: retryer_example_def start_def canStart_def canFetch_def isOnline_def
        OnlineManager_def config_example_def world_example_def run_def createRetryer_def)
  have a: "\<not> isResolved retryer_example" and b: "thenable retryer_example = Pending"
    by (simp_all add: ex)
  have c: "\<not> isResolved (cancelRetry retryer_example)"
    and d: "thenable (cancelRetry retryer_example) = Pending"
    by (simp_all add: ex cancelRetry_def)
  have run1: "run_catch False config_example ''boom'' retryer_example
       = retryer_example\<lparr>failureCount := 1,
           effects := [CallFn, OnFail 1 ''boom'', Sleep (Finite 1000)]\<rparr>"
    by (simp add: ex run_catch_def config_example_def defaultRetryDelay_def Let_def)
  have cc: "canContinue config_example world_example"
    by (simp add: canContinue_def config_example_def world_example_def isFocused_def
        FocusManager_def isOnline_def OnlineManager_def)
  have run2: "effects (run_afterSleep config_example world_example ''boom''
         (run_catch False config_example ''boom'' retryer_example))
       = [CallFn, OnFail 1 ''boom'', Sleep (Finite 1000), CallFn]"
    unfolding run1 using cc by (simp add: run_afterSleep_def run_def ex)
  from retry_decision [OF a b refl refl refl, of False config_example "''boom''" world_example]
    retry_decision [OF c d refl refl refl, of False config_example "''boom''" world_example]
    retry_decision [OF a b refl refl refl, of False
      "config_example\<lparr>retry := Some (RetryNumber (Finite 0))\<rparr>" "''boom''" world_example]
    run1 run2 cc
  show ?thesis
    by (simp add: ex cancelRetry_def config_example_def)
qed

lemma canFetch_cases:
  "canFetch mode w =
     (if mode = None \<or> mode = Some Online then isOnline (onlineManager w) else True)"
  by (simp add: canFetch_def split: option.splits)

text \<open>
  C2. \<open>canContinue()\<close> is the conjunction of: focused; network mode
  \<open>'always'\<close> or online; \<open>canRun()\<close>. \<open>canFetch\<close> reads the online state
  only when the mode is unset or \<open>'online'\<close>, and is true otherwise. So under
  \<open>'always'\<close>, \<open>canStart\<close> is just \<open>canRun()\<close> and \<open>canContinue\<close> is
  focused-and-\<open>canRun()\<close>: \<open>start\<close> runs at once when \<open>canRun()\<close> holds, the
  step after a retry delay runs on when focused and \<open>canRun()\<close> holds, and
  replacing the online manager by any other changes neither answer (as long
  as \<open>canRun\<close> itself gives the same answer).
\<close>

theorem network_mode_gating:
  "(canContinue config w \<longleftrightarrow>
      isFocused (document w) (focusManager w)
      \<and> (networkMode config = Some Always \<or> isOnline (onlineManager w))
      \<and> canRun config w)
   \<and> canFetch mode w =
       (if mode = None \<or> mode = Some Online then isOnline (onlineManager w) else True)
   \<and> (networkMode config = Some Always \<longrightarrow>
        canStart config w = canRun config w
      \<and> canContinue config w = (isFocused (document w) (focusManager w) \<and> canRun config w)
      \<and> start config w r = (if canRun config w then run config r else pause ThenRun r)
      \<and> run_afterSleep config w e r =
          (if isFocused (document w) (focusManager w) \<and> canRun config w
           then run_chained config (ThenRetry e) r
           else pause (ThenRetry e) r)
      \<and> (canRun config (w\<lparr>onlineManager := om\<rparr>) = canRun config w \<longrightarrow>
            canStart config (w\<lparr>onlineManager := om\<rparr>) = canStart config w
          \<and> canContinue config (w\<lparr>onlineManager := om\<rparr>) = canContinue config w))"
proof -
  have 1: "canContinue config w \<longleftrightarrow>
      isFocused (document w) (focusManager w)
      \<and> (networkMode config = Some Always \<or> isOnline (onlineManager w))
      \<and> canRun config w"
    by (simp add: canContinue_def)
  have 2: "networkMode config = Some Always \<Longrightarrow> canStart config w = canRun config w" for w
    by (simp add: canStart_def canFetch_cases)
  have 3: "networkMode config = Some Always \<Longrightarrow>
      canContinue config w = (isFocused (document w) (focusManager w) \<and> canRun config w)" for w
    by (simp add: canContinue_def)
  have 4: "networkMode config = Some Always \<Longrightarrow>
      start config w r = (if canRun config w then run config r else pause ThenRun r)"
    by (simp add: start_def 2)
  have 5: "networkMode config = Some Always \<Longrightarrow>
      run_afterSleep config w e r =
          (if isFocused (document w) (focusManager w) \<and> canRun config w
           then run_chained config (ThenRetry e) r
           else pause (ThenRetry e) r)"
    by (simp add: run_afterSleep_def 3)
  have 6: "networkMode config = Some Always \<Longrightarrow>
      canRun config (w\<lparr>onlineManager := om\<rparr>) = canRun config w \<Longrightarrow>
            canStart config (w\<lparr>onlineManager := om\<rparr>) = canStart config w
          \<and> canContinue config (w\<lparr>onlineManager := om\<rparr>) = canContinue config w"
    by (simp add: 2 3)
  from 1 2 [of w] 3 [of w] 4 5 6 canFetch_cases [of mode w] show ?thesis
    by blast
qed

text \<open>
  Offline, a retryer in mode \<open>'always'\<close> can start and can continue, and
  \<open>start\<close> calls \<open>config.fn\<close>; in the default mode it can do neither.
\<close>

theorem network_mode_gating_witness:
  "networkMode (config_example\<lparr>networkMode := Some Always\<rparr>) = Some Always
   \<and> \<not> isOnline (onlineManager offline_example)
   \<and> canStart (config_example\<lparr>networkMode := Some Always\<rparr>) offline_example
   \<and> canContinue (config_example\<lparr>networkMode := Some Always\<rparr>) offline_example
   \<and> effects (start (config_example\<lparr>networkMode := Some Always\<rparr>) offline_example
               (createRetryer :: (nat, string) retryer)) = [CallFn]
   \<and> \<not> canFetch None offline_example
   \<and> \<not> canStart config_example offline_example
   \<and> \<not> canContinue config_example offline_example
   \<and> canFetch (Some OfflineFirst) offline_example"
  using network_mode_gating [of "config_example\<lparr>networkMode := Some Always\<rparr>" offline_example None
      "createRetryer :: (nat, string) retryer" "''boom''" OnlineManager]
    network_mode_gating [of config_example offline_example "Some OfflineFirst"
      "createRetryer :: (nat, string) retryer" "''boom''" OnlineManager]
  by (simp add: config_example_def offline_example_def world_example_def isOnline_def
      setOnline_def OnlineManager_def FocusManager_def isFocused_def run_def createRetryer_def
      canStart_def)

section \<open>MutationCache: properties\<close>

lemma canRun_scoped:
  assumes "scopeFor w m = Some s"
  shows "MutationCache_canRun m w \<longleftrightarrow>
     (let ms = (case scopes w s of None \<Rightarrow> [] | Some l \<Rightarrow> l);
          fp = List.find (\<lambda>x. status (heap w x) = StatusPending) ms
      in fp = None \<or> fp = Some m)"
  using assms by (simp add: MutationCache_canRun_def Let_def split: option.splits)

text \<open>
  C3. An unscoped mutation can always run. A mutation with scope id \<open>s\<close> can
  run exactly when no mutation in the list kept for \<open>s\<close> (empty when there is
  none) is pending, or the first pending entry of that list is the mutation
  itself.
\<close>

theorem canRun_first_pending:
  "(scopeFor w m = None \<longrightarrow> MutationCache_canRun m w)
   \<and> (scopeFor w m = Some s \<and> ms = (case scopes w s of None \<Rightarrow> [] | Some l \<Rightarrow> l) \<longrightarrow>
        (MutationCache_canRun m w \<longleftrightarrow>
           (\<forall>x \<in> set ms. status (heap w x) \<noteq> StatusPending)
           \<or> (\<exists>i < length ms. ms ! i = m \<and> status (heap w (ms ! i)) = StatusPending
                 \<and> (\<forall>j < i. status (heap w (ms ! j)) \<noteq> StatusPending))))"
proof -
  have 1: "scopeFor w m = None \<longrightarrow> MutationCache_canRun m w"
    by (simp add: MutationCache_canRun_def)
  have 2: "MutationCache_canRun m w \<longleftrightarrow>
           (\<forall>x \<in> set ms. status (heap w x) \<noteq> StatusPending)
           \<or> (\<exists>i < length ms. ms ! i = m \<and> status (heap w (ms ! i)) = StatusPending
                 \<and> (\<forall>j < i. status (heap w (ms ! j)) \<noteq> StatusPending))"
    if sc: "scopeFor w m = Some s" and ms: "ms = (case scopes w s of None \<Rightarrow> [] | Some l \<Rightarrow> l)"
  proof -
    let ?P = "\<lambda>x. status (heap w x) = StatusPending"
    have "MutationCache_canRun m w \<longleftrightarrow> List.find ?P ms = None \<or> List.find ?P ms = Some m"
      using canRun_scoped [OF sc] ms by (simp add: Let_def)
    also have "List.find ?P ms = None \<longleftrightarrow> (\<forall>x \<in> set ms. \<not> ?P x)"
      by (auto simp: find_None_iff)
    also have "List.find ?P ms = Some m \<longleftrightarrow>
        (\<exists>i < length ms. ms ! i = m \<and> ?P (ms ! i) \<and> (\<forall>j < i. \<not> ?P (ms ! j)))"
      by (auto simp: find_Some_iff)
    finally show ?thesis .
  qed
  from 1 2 show ?thesis by blast
qed

text \<open>
  In the example scope \<open>x = [1, 2, 3]\<close> with 2 and 3 pending: 2 is the first
  pending entry and can run, 3 cannot, and the unscoped 4 can.
\<close>

theorem canRun_first_pending_witness:
  "scopeFor engine_example 4 = None \<and> MutationCache_canRun 4 engine_example
   \<and> scopeFor engine_example 2 = Some ''x''
   \<and> (case scopes engine_example ''x'' of None \<Rightarrow> [] | Some l \<Rightarrow> l) = [1, 2, 3]
   \<and> MutationCache_canRun 2 engine_example
   \<and> scopeFor engine_example 3 = Some ''x''
   \<and> \<not> MutationCache_canRun 3 engine_example"
proof -
  have s2: "scopeFor engine_example 2 = Some ''x''"
    and s3: "scopeFor engine_example 3 = Some ''x''"
    and s4: "scopeFor engine_example 4 = None"
    by (simp_all add: scopeFor_def engine_example_def heap_example_def)
  have l: "(case scopes engine_example ''x'' of None \<Rightarrow> [] | Some l \<Rightarrow> l) = [1, 2, 3]"
    by (simp add: engine_example_def)
  have c2: "MutationCache_canRun 2 engine_example"
    by (simp add: MutationCache_canRun_def scopeFor_def engine_example_def heap_example_def)
  have c3: "\<not> MutationCache_canRun 3 engine_example"
    by (simp add: MutationCache_canRun_def scopeFor_def engine_example_def heap_example_def)
  from canRun_first_pending [of engine_example 4 "''x''" "[]"]
    canRun_first_pending [of engine_example 2 "''x''" "[1, 2, 3]"]
    s2 s3 s4 l c2 c3
  show ?thesis by simp
qed

lemma notify_calls:
  "mc_calls (MutationCache_notify event w) =
     mc_calls w @ map (\<lambda>l. (l, event)) (mc_listeners w)"
  by (simp add: MutationCache_notify_def batch_def flush_def Let_def)

lemma notify_mutations:
  "mutations (MutationCache_notify event w) = mutations w"
  "scopes (MutationCache_notify event w) = scopes w"
  by (simp_all add: MutationCache_notify_def batch_def flush_def Let_def)

text \<open>
  C7. \<open>remove(m)\<close> calls every listener of the cache with the event
  \<open>removed\<close> for \<open>m\<close>, whether or not \<open>m\<close> was in the cache; when it was not,
  the set of mutations and the scopes are left as they were.
\<close>

theorem remove_always_notifies:
  "mc_calls (MutationCache_remove m w) =
     mc_calls w @ map (\<lambda>l. (l, Removed m)) (mc_listeners w)
   \<and> (m \<notin> set (mutations w) \<longrightarrow>
        mutations (MutationCache_remove m w) = mutations w
      \<and> scopes (MutationCache_remove m w) = scopes w)"
proof -
  have 1: "mc_calls (MutationCache_remove m w) =
     mc_calls w @ map (\<lambda>l. (l, Removed m)) (mc_listeners w)"
    by (simp add: MutationCache_remove_def Let_def notify_calls
        split: option.splits list.splits)
  have 2: "m \<notin> set (mutations w) \<longrightarrow>
        mutations (MutationCache_remove m w) = mutations w
      \<and> scopes (MutationCache_remove m w) = scopes w"
    by (simp add: MutationCache_remove_def Let_def notify_mutations)
  from 1 2 show ?thesis by blast
qed

text \<open>
  Mutation 4 is not in the example cache; removing it still calls listeners 10
  and 11 with the removal of 4 and leaves the cache as it was.
\<close>

theorem remove_always_notifies_witness:
  "4 \<notin> set (mutations engine_example)
   \<and> mc_calls (MutationCache_remove 4 engine_example) = [(10, Removed 4), (11, Removed 4)]
   \<and> mutations (MutationCache_remove 4 engine_example) = [1, 2, 3]"
  using remove_always_notifies [of 4 engine_example]
  by (simp add: engine_example_def)

lemma flush_continue_calls:
  "continue_calls (flush w) = continue_calls w"
  by (simp add: flush_def Let_def)

lemma QueryCache_onFocus_continue_calls:
  "continue_calls (QueryCache_onFocus w) = continue_calls w"
  by (simp add: QueryCache_onFocus_def batch_def flush_def Let_def)

lemma QueryCache_onOnline_continue_calls:
  "continue_calls (QueryCache_onOnline w) = continue_calls w"
  by (simp add: QueryCache_onOnline_def batch_def flush_def Let_def)

lemma resume_offline:
  "\<not> isOnline (onlineManager w) \<Longrightarrow>
   QueryClient_resumePausedMutations w = (Inr (Fulfilled Undefined), w)"
  by (simp add: QueryClient_resumePausedMutations_def)

lemma MutationCache_resume_calls:
  "continue_calls (snd (MutationCache_resumePausedMutations w)) =
     continue_calls w @ filter (\<lambda>x. isPaused (heap w x)) (mutations w)"
  by (simp add: MutationCache_resumePausedMutations_def batch_def flush_def Let_def)

text \<open>
  C10. While the online manager reports offline,
  \<open>QueryClient.resumePausedMutations()\<close> returns a promise already fulfilled
  with \<open>undefined\<close> and changes nothing: \<open>MutationCache.resumePausedMutations\<close>
  is not entered and no mutation's \<open>continue()\<close> is called. The same holds for
  the focus and online listeners of \<open>mount()\<close>, whatever value they are called
  with. Online, the call does continue every paused mutation of the cache.
\<close>

theorem offline_resume_does_nothing:
  "(\<not> isOnline (onlineManager w) \<longrightarrow>
      QueryClient_resumePausedMutations w = (Inr (Fulfilled Undefined), w)
      \<and> continue_calls (mount_focusListener focused w) = continue_calls w
      \<and> continue_calls (mount_onlineListener online w) = continue_calls w)
   \<and> (isOnline (onlineManager w) \<longrightarrow>
      continue_calls (snd (QueryClient_resumePausedMutations w)) =
        continue_calls w @ filter (\<lambda>x. isPaused (heap w x)) (mutations w))"
proof -
  have 1: "continue_calls (mount_focusListener focused w) = continue_calls w"
    if "\<not> isOnline (onlineManager w)"
    using that by (simp add: mount_focusListener_def resume_offline QueryCache_onFocus_continue_calls)
  have 2: "continue_calls (mount_onlineListener online w) = continue_calls w"
    if "\<not> isOnline (onlineManager w)"
    using that by (simp add: mount_onlineListener_def resume_offline QueryCache_onOnline_continue_calls)
  have 3: "continue_calls (snd (QueryClient_resumePausedMutations w)) =
        continue_calls w @ filter (\<lambda>x. isPaused (heap w x)) (mutations w)"
    if "isOnline (onlineManager w)"
    using that by (simp add: QueryClient_resumePausedMutations_def MutationCache_resume_calls)
  from 1 2 3 resume_offline [of w] show ?thesis by blast
qed

text \<open>
  The example cache holds the paused mutation 3. Offline, resuming and both
  listeners leave it alone; online, resuming calls its \<open>continue()\<close>.
\<close>

theorem offline_resume_does_nothing_witness:
  "\<not> isOnline (onlineManager engine_offline_example)
   \<and> QueryClient_resumePausedMutations engine_offline_example
       = (Inr (Fulfilled Undefined), engine_offline_example)
   \<and> continue_calls (mount_focusListener True engine_offline_example) = []
   \<and> query_calls (mount_focusListener True engine_offline_example) = [(''q'', QueryOnFocus)]
   \<and> continue_calls (mount_onlineListener True engine_offline_example) = []
   \<and> isOnline (onlineManager engine_example)
   \<and> continue_calls (snd (QueryClient_resumePausedMutations engine_example)) = [3]"
proof -
  have off: "\<not> isOnline (onlineManager engine_offline_example)"
    by (simp add: engine_offline_example_def isOnline_def setOnline_def OnlineManager_def)
  have on: "isOnline (onlineManager engine_example)"
    by (simp add: engine_example_def isOnline_def OnlineManager_def)
  have q0: "mount_focusListener True engine_offline_example = QueryCache_onFocus engine_offline_example"
    by (simp add: mount_focusListener_def resume_offline [OF off])
  have q: "query_calls (mount_focusListener True engine_offline_example) = [(''q'', QueryOnFocus)]"
    unfolding q0
    by (simp add: QueryCache_onFocus_def batch_def flush_def Let_def
        engine_offline_example_def engine_example_def)
  have c: "continue_calls engine_offline_example = []"
    by (simp add: engine_offline_example_def engine_example_def)
  have p: "continue_calls engine_example @
      filter (\<lambda>x. isPaused (heap engine_example x)) (mutations engine_example) = [3]"
    by (simp add: engine_example_def heap_example_def)
  from offline_resume_does_nothing [of engine_offline_example True True]
    offline_resume_does_nothing [of engine_example True True]
    off on q c p
  show ?thesis by simp
qed

section \<open>QueryClient: properties\<close>

lemma swallow_cases:
  "catch_promise noop (then_promise noop p) =
     (if p = Pending then Pending else Fulfilled Undefined)"
  by (cases p) (simp_all add: noop_def)

lemma prefetchQuery_result:
  "fst (prefetchQuery deps options s) =
     (if fst (fetchQuery deps options s) = Pending then Pending else Fulfilled Undefined)"
  by (simp add: prefetchQuery_def swallow_cases split: prod.splits)

lemma prefetchInfiniteQuery_result:
  "fst (prefetchInfiniteQuery deps options s) =
     (if fst (fetchInfiniteQuery deps options s) = Pending then Pending else Fulfilled Undefined)"
  by (simp add: prefetchInfiniteQuery_def swallow_cases split: prod.splits)

text \<open>
  C8. The promise returned by \<open>prefetchQuery\<close> and by \<open>prefetchInfiniteQuery\<close>
  is never rejected. Once the promise of the underlying \<open>fetchQuery\<close> settles,
  fulfilled with any data or rejected with any error, the returned promise is
  fulfilled with \<open>undefined\<close>; it stays pending only as long as the underlying
  one does.
\<close>

theorem prefetch_swallows_errors:
  "fst (prefetchQuery deps options s) \<noteq> Rejected e
   \<and> fst (prefetchInfiniteQuery deps options s) \<noteq> Rejected e
   \<and> (fst (fetchQuery deps options s) = Rejected e' \<longrightarrow>
        fst (prefetchQuery deps options s) = Fulfilled Undefined)
   \<and> (fst (fetchQuery deps options s) = Fulfilled v \<longrightarrow>
        fst (prefetchQuery deps options s) = Fulfilled Undefined)
   \<and> (fst (fetchInfiniteQuery deps options s) = Rejected e' \<longrightarrow>
        fst (prefetchInfiniteQuery deps options s) = Fulfilled Undefined)
   \<and> (fst (fetchInfiniteQuery deps options s) = Fulfilled v \<longrightarrow>
        fst (prefetchInfiniteQuery deps options s) = Fulfilled Undefined)
   \<and> (fst (prefetchQuery deps options s) = Pending \<longleftrightarrow>
        fst (fetchQuery deps options s) = Pending)
   \<and> (fst (prefetchInfiniteQuery deps options s) = Pending \<longleftrightarrow>
        fst (fetchInfiniteQuery deps options s) = Pending)"
  by (simp add: prefetchQuery_result prefetchInfiniteQuery_result)

text \<open>
  The example query function fails with \<open>boom\<close>: \<open>fetchQuery\<close> and
  \<open>fetchInfiniteQuery\<close> reject, the two prefetches are fulfilled with
  \<open>undefined\<close>.
\<close>

theorem prefetch_swallows_errors_witness:
  "fst (fetchQuery deps_example options_example 0) = Rejected ''boom''
   \<and> fst (prefetchQuery deps_example options_example 0) = Fulfilled Undefined
   \<and> fst (fetchInfiniteQuery deps_example options_example 0) = Rejected ''boom''
   \<and> fst (prefetchInfiniteQuery deps_example options_example 0) = Fulfilled Undefined"
proof -
  have f: "fst (fetchQuery deps_example options_example 0) = Rejected ''boom''"
    by (simp add: fetchQuery_def deps_example_def options_example_def Let_def)
  have g: "fst (fetchInfiniteQuery deps_example options_example 0) = Rejected ''boom''"
    by (simp add: fetchInfiniteQuery_def fetchQuery_def deps_example_def options_example_def Let_def)
  from prefetch_swallows_errors [of deps_example options_example 0 "''boom''" "''boom''" Undefined]
    f g
  show ?thesis by simp
qed

lemma fetchQuery_retry_unset:
  assumes "opt_retry (defaultQueryOptions deps options s) = None"
  shows "fetchQuery deps options s =
     (case build deps ((defaultQueryOptions deps options s)\<lparr>opt_retry := Some (RetryBool False)\<rparr>) s of
        (q, s1) \<Rightarrow>
          if isStaleByTime deps ((defaultQueryOptions deps options s)\<lparr>opt_retry := Some (RetryBool False)\<rparr>) q s1
          then fetch deps q ((defaultQueryOptions deps options s)\<lparr>opt_retry := Some (RetryBool False)\<rparr>) s1
          else (Fulfilled (state_data deps q s1), s1))"
  using assms by (simp add: fetchQuery_def Let_def)



lemma run_createRetryer:
  "run config (createRetryer :: ('a, 'e) retryer) =
     createRetryer\<lparr>effects := [if hasInitialPromise config then AwaitInitialPromise else CallFn]\<rparr>"
  by (simp add: run_def createRetryer_def)






















end
